theory Spec2Isabelle
  imports Main
begin

section \<open>The sniff command of ksniff (pkg/cmd/sniff.go)\<close>

text \<open>
  The command completes its options, validates the target pod, makes sure a static
  tcpdump binary is on the remote container and then runs it there, sending its output
  to a file or to the standard input of a local wireshark.

  The functions of \<^verbatim>\<open>sniff.go\<close> are embedded one by one under their own names. What
  they call outside the file (the \<^verbatim>\<open>kube\<close> package, the Kubernetes client, the
  kubeconfig loader, \<^verbatim>\<open>os\<close> and \<^verbatim>\<open>os/exec\<close>) is a parameter: a record of
  functions over an arbitrary world \<^typ>\<open>'w\<close>, each returning its answer and the next
  world. Every such call is also appended to a trace, so that statements about which
  remote commands were issued, and in which order, can be made. Logging is left out.
\<close>

subsection \<open>Errors\<close>

text \<open>
  \<^verbatim>\<open>External\<close> carries the text of an error returned by a collaborator; the other
  constructors are the errors \<^verbatim>\<open>sniff.go\<close> creates itself:
  \<^item> \<^verbatim>\<open>NotEnoughArguments n\<close>: \<^verbatim>\<open>errors.Errorf("not enough arguments (%d)", n)\<close>;
  \<^item> \<^verbatim>\<open>ContextDoesntExist\<close>: \<^verbatim>\<open>errors.New("context doesn't exist")\<close>;
  \<^item> \<^verbatim>\<open>NamespaceEmpty\<close>: \<^verbatim>\<open>errors.New("namespace value is empty should be custom or default")\<close>;
  \<^item> \<^verbatim>\<open>CompletedPod ph\<close>: \<^verbatim>\<open>errors.Errorf("cannot sniff on a container in a completed pod; current phase is %s", ph)\<close>;
  \<^item> \<^verbatim>\<open>NoContainers\<close>: \<^verbatim>\<open>errors.New("no containers in specified pod")\<close>;
  \<^item> \<^verbatim>\<open>FailedToCheckForTcpdump\<close>: \<^verbatim>\<open>errors.New("failed to check for tcpdump")\<close>;
  \<^item> \<^verbatim>\<open>UploadFailed e c\<close>: the error \<^verbatim>\<open>e\<close> wrapped with
    \<^verbatim>\<open>"upload file command failed, exitCode: c"\<close>.
\<close>

datatype error =
    External string
  | NotEnoughArguments nat
  | ContextDoesntExist
  | NamespaceEmpty
  | CompletedPod string
  | NoContainers
  | FailedToCheckForTcpdump
  | UploadFailed error int

text \<open>
  \<^verbatim>\<open>errors.Wrapf\<close> of github.com/pkg/errors, at its one call site (the format string
  is fixed there, only the exit code varies). The library documents: "If err is nil,
  Wrapf returns nil."
\<close>

definition errors_Wrapf :: "error option \<Rightarrow> int \<Rightarrow> error option" where
  "errors_Wrapf err exitCode =
     (case err of None \<Rightarrow> None | Some e \<Rightarrow> Some (UploadFailed e exitCode))"

subsection \<open>Data\<close>

text \<open>The part of a Kubernetes pod object that \<^verbatim>\<open>Validate\<close> reads.\<close>

type_synonym PodPhase = string

definition PodSucceeded :: PodPhase where
  "PodSucceeded = ''Succeeded''"

definition PodFailed :: PodPhase where
  "PodFailed = ''Failed''"

record Container =
  Name :: string

record PodSpec =
  Containers :: "Container list"

record PodStatus =
  Phase :: PodPhase

record Pod =
  Spec :: PodSpec
  Status :: PodStatus

text \<open>
  The client configuration: \<^verbatim>\<open>rest.Config\<close> with its \<^verbatim>\<open>Timeout\<close> (a
  \<^verbatim>\<open>time.Duration\<close>, in nanoseconds), the kubeconfig (\<^verbatim>\<open>api.Config\<close>) with its
  current context and its contexts by name (every context that is listed is there, none
  is a nil pointer), and the clientset, an opaque handle. The namespace field of
  \<^verbatim>\<open>api.Context\<close> is called \<^verbatim>\<open>ContextNamespace\<close> here, apart from the
  \<^verbatim>\<open>Namespace\<close> of a request.
\<close>

definition time_Second :: int where
  "time_Second = 1000000000"

record RestConfig =
  Host :: string
  Timeout :: int

datatype Clientset = ClientsetHandle nat

record Context =
  Cluster :: string
  AuthInfo :: string
  ContextNamespace :: string

record Config =
  CurrentContext :: string
  Contexts :: "string \<rightharpoonup> Context"

record SniffOptions =
  resultingContext :: "Context option"
  userSpecifiedPod :: string
  userSpecifiedFilter :: string
  userSpecifiedContainer :: string
  userSpecifiedNamespace :: string
  userSpecifiedOutputFile :: string
  userSpecifiedLocalTcpdumpPath :: string
  userSpecifiedRemoteTcpdumpPath :: string
  clientset :: "Clientset option"
  restConfig :: "RestConfig option"
  rawConfig :: Config

definition tcpdumpLocalPath :: string where
  "tcpdumpLocalPath = ''/tcpdump-static''"

definition tcpdumpRemotePath :: string where
  "tcpdumpRemotePath = ''/tmp/static-tcpdump''"

text \<open>
  \<^verbatim>\<open>NewSniffOptions\<close> leaves every field modelled here at its zero value. The flags
  registered by \<^verbatim>\<open>NewCmdSniff\<close> then give the namespace and the two paths of the binary
  their defaults; \<^verbatim>\<open>flagDefaults\<close> is the options of a command line without flags.
\<close>

definition NewSniffOptions :: SniffOptions where
  "NewSniffOptions =
     \<lparr> resultingContext = None,
       userSpecifiedPod = '''',
       userSpecifiedFilter = '''',
       userSpecifiedContainer = '''',
       userSpecifiedNamespace = '''',
       userSpecifiedOutputFile = '''',
       userSpecifiedLocalTcpdumpPath = '''',
       userSpecifiedRemoteTcpdumpPath = '''',
       clientset = None,
       restConfig = None,
       rawConfig = \<lparr> CurrentContext = '''', Contexts = Map.empty \<rparr> \<rparr>"

definition flagDefaults :: SniffOptions where
  "flagDefaults =
     NewSniffOptions
       \<lparr> userSpecifiedNamespace := ''default'',
         userSpecifiedLocalTcpdumpPath := tcpdumpLocalPath,
         userSpecifiedRemoteTcpdumpPath := tcpdumpRemotePath \<rparr>"

subsection \<open>Requests of the kube package\<close>

text \<open>
  A writer handed to a remote command: a fresh \<^verbatim>\<open>kube.Writer\<close> (it keeps what is
  written in its \<^verbatim>\<open>Output\<close>), a \<^verbatim>\<open>kube.NopWriter\<close>, the file created for the
  capture, or the pipe to the viewer's standard input.
\<close>

datatype Sink = KubeWriter | KubeNopWriter | FileSink string | ViewerStdin

record KubeRequest =
  Clientset :: "Clientset option"
  RestConfig :: "RestConfig option"
  Namespace :: string
  Pod :: string
  Container :: string

record ExecCommandRequest = KubeRequest +
  Command :: "string list"
  StdOut :: Sink
  StdErr :: Sink

record UploadFileRequest = KubeRequest +
  Src :: string
  Dst :: string

text \<open>
  Modelled from the spec: \<^verbatim>\<open>kube.Writer\<close>, which is not among the sources, is the
  in-memory capturing sink used to inspect the output of a short command. So what
  \<^verbatim>\<open>kube.PodExecuteCommand\<close> gives back is taken to be the exit code, the error (its
  text, if any), and the bytes the command wrote on its output and on its error stream:
  the \<^verbatim>\<open>Output\<close> of the fresh writers of the request after the call.
\<close>

record ExecResult =
  exitCode :: int
  execErr :: "string option"
  stdOutOutput :: string
  stdErrOutput :: string

subsection \<open>The environment and the trace\<close>

datatype Event =
    GetPodEvent string string
  | ExecEvent ExecCommandRequest
  | UploadEvent UploadFileRequest
  | CreateEvent string
  | StdinPipeEvent "string list"
  | CmdRunEvent "string list"

record 'w Env =
  RawConfig :: "'w \<Rightarrow> (string + Config) \<times> 'w"
  ToRESTConfig :: "'w \<Rightarrow> (string + RestConfig) \<times> 'w"
  NewForConfig :: "RestConfig \<Rightarrow> 'w \<Rightarrow> (string + Clientset) \<times> 'w"
  GetPod :: "Clientset option \<Rightarrow> string \<Rightarrow> string \<Rightarrow> 'w \<Rightarrow> (string + Pod) \<times> 'w"
  PodExecuteCommand :: "ExecCommandRequest \<Rightarrow> 'w \<Rightarrow> ExecResult \<times> 'w"
  PodUploadFile :: "UploadFileRequest \<Rightarrow> 'w \<Rightarrow> (int \<times> string option) \<times> 'w"
  Create :: "string \<Rightarrow> 'w \<Rightarrow> string option \<times> 'w"
  StdinPipe :: "string list \<Rightarrow> 'w \<Rightarrow> string option \<times> 'w"
  CmdRun :: "string list \<Rightarrow> 'w \<Rightarrow> string option \<times> 'w"

record 'w State =
  world :: 'w
  trace :: "Event list"

text \<open>The calls that leave the file, each recorded in the trace.\<close>

definition pods_Get :: "'w Env \<Rightarrow> Clientset option \<Rightarrow> string \<Rightarrow> string \<Rightarrow> 'w State
    \<Rightarrow> (string + Pod) \<times> 'w State" where
  "pods_Get env cs ns name s =
     (case GetPod env cs ns name (world s) of
        (r, w) \<Rightarrow> (r, \<lparr> world = w, trace = trace s @ [GetPodEvent ns name] \<rparr>))"

definition kube_PodExecuteCommand :: "'w Env \<Rightarrow> ExecCommandRequest \<Rightarrow> 'w State
    \<Rightarrow> ExecResult \<times> 'w State" where
  "kube_PodExecuteCommand env req s =
     (case PodExecuteCommand env req (world s) of
        (r, w) \<Rightarrow> (r, \<lparr> world = w, trace = trace s @ [ExecEvent req] \<rparr>))"

definition kube_PodUploadFile :: "'w Env \<Rightarrow> UploadFileRequest \<Rightarrow> 'w State
    \<Rightarrow> (int \<times> error option) \<times> 'w State" where
  "kube_PodUploadFile env req s =
     (case PodUploadFile env req (world s) of
        ((c, e), w) \<Rightarrow>
          ((c, map_option External e), \<lparr> world = w, trace = trace s @ [UploadEvent req] \<rparr>))"

definition os_Create :: "'w Env \<Rightarrow> string \<Rightarrow> 'w State \<Rightarrow> error option \<times> 'w State" where
  "os_Create env path s =
     (case Create env path (world s) of
        (e, w) \<Rightarrow> (map_option External e, \<lparr> world = w, trace = trace s @ [CreateEvent path] \<rparr>))"

definition cmd_StdinPipe :: "'w Env \<Rightarrow> string list \<Rightarrow> 'w State \<Rightarrow> error option \<times> 'w State" where
  "cmd_StdinPipe env argv s =
     (case StdinPipe env argv (world s) of
        (e, w) \<Rightarrow> (map_option External e, \<lparr> world = w, trace = trace s @ [StdinPipeEvent argv] \<rparr>))"

definition cmd_Run :: "'w Env \<Rightarrow> string list \<Rightarrow> 'w State \<Rightarrow> error option \<times> 'w State" where
  "cmd_Run env argv s =
     (case CmdRun env argv (world s) of
        (e, w) \<Rightarrow> (map_option External e, \<lparr> world = w, trace = trace s @ [CmdRunEvent argv] \<rparr>))"

subsection \<open>Complete and Validate\<close>

text \<open>
  The options are changed through a pointer, so each function returns them next to its
  error. Where a collaborator fails, the field assigned from its result is left as it
  was: the caller returns the error at once and never reads it.
\<close>

definition Complete :: "'w Env \<Rightarrow> SniffOptions \<Rightarrow> string list \<Rightarrow> 'w State
    \<Rightarrow> error option \<times> SniffOptions \<times> 'w State" where
  "Complete env opts args s =
     (if length args < 1 then (Some (NotEnoughArguments (length args)), opts, s)
      else
        let o1 = opts\<lparr>userSpecifiedPod := args ! 0\<rparr> in
        case RawConfig env (world s) of
          (Inl e, w1) \<Rightarrow> (Some (External e), o1, s\<lparr>world := w1\<rparr>)
        | (Inr rc, w1) \<Rightarrow>
            let o2 = o1\<lparr>rawConfig := rc\<rparr> in
            (case ToRESTConfig env w1 of
               (Inl e, w2) \<Rightarrow> (Some (External e), o2, s\<lparr>world := w2\<rparr>)
             | (Inr cfg, w2) \<Rightarrow>
                 let cfg' = cfg\<lparr>Timeout := 30 * time_Second\<rparr>;
                     o3 = o2\<lparr>restConfig := Some cfg'\<rparr> in
                 (case NewForConfig env cfg' w2 of
                    (Inl e, w3) \<Rightarrow> (Some (External e), o3, s\<lparr>world := w3\<rparr>)
                  | (Inr cs, w3) \<Rightarrow>
                      let o4 = o3\<lparr>clientset := Some cs\<rparr> in
                      (case Contexts (rawConfig o4) (CurrentContext (rawConfig o4)) of
                         None \<Rightarrow> (Some ContextDoesntExist, o4, s\<lparr>world := w3\<rparr>)
                       | Some currentContext \<Rightarrow>
                           (None,
                            o4\<lparr>resultingContext :=
                                 Some (currentContext\<lparr>ContextNamespace := userSpecifiedNamespace o4\<rparr>)\<rparr>,
                            s\<lparr>world := w3\<rparr>)))))"

definition Validate :: "'w Env \<Rightarrow> SniffOptions \<Rightarrow> 'w State
    \<Rightarrow> error option \<times> SniffOptions \<times> 'w State" where
  "Validate env opts s =
     (if length (CurrentContext (rawConfig opts)) = 0 then (Some ContextDoesntExist, opts, s)
      else if userSpecifiedNamespace opts = '''' then (Some NamespaceEmpty, opts, s)
      else
        case pods_Get env (clientset opts) (userSpecifiedNamespace opts) (userSpecifiedPod opts) s of
          (Inl e, s1) \<Rightarrow> (Some (External e), opts, s1)
        | (Inr pod, s1) \<Rightarrow>
            if Phase (Status pod) = PodSucceeded \<or> Phase (Status pod) = PodFailed
            then (Some (CompletedPod (Phase (Status pod))), opts, s1)
            else if length (Containers (Spec pod)) < 1 then (Some NoContainers, opts, s1)
            else if userSpecifiedContainer opts = ''''
            then (None, opts\<lparr>userSpecifiedContainer := Name (Containers (Spec pod) ! 0)\<rparr>, s1)
            else (None, opts, s1))"

subsection \<open>The presence probe and the upload\<close>

definition checkTcpdumpRequest :: "SniffOptions \<Rightarrow> string \<Rightarrow> ExecCommandRequest" where
  "checkTcpdumpRequest opts tcpdumpRemotePath' =
     \<lparr> Clientset = clientset opts,
       RestConfig = restConfig opts,
       Namespace = userSpecifiedNamespace opts,
       Pod = userSpecifiedPod opts,
       Container = userSpecifiedContainer opts,
       Command = [''/bin/sh'', ''-c'', ''ls -alt '' @ tcpdumpRemotePath'],
       StdOut = KubeWriter,
       StdErr = KubeWriter \<rparr>"

definition CheckIfTcpdumpExistOnPod :: "'w Env \<Rightarrow> SniffOptions \<Rightarrow> string \<Rightarrow> 'w State
    \<Rightarrow> (bool \<times> error option) \<times> 'w State" where
  "CheckIfTcpdumpExistOnPod env opts tcpdumpRemotePath' s =
     (case kube_PodExecuteCommand env (checkTcpdumpRequest opts tcpdumpRemotePath') s of
        (r, s1) \<Rightarrow>
          (case execErr r of
             Some e \<Rightarrow> ((False, Some (External e)), s1)
           | None \<Rightarrow>
               if exitCode r \<noteq> 0 then ((False, None), s1)
               else if stdErrOutput r \<noteq> '''' then ((False, Some FailedToCheckForTcpdump), s1)
               else ((True, None), s1)))"

definition uploadFileRequest :: "SniffOptions \<Rightarrow> UploadFileRequest" where
  "uploadFileRequest opts =
     \<lparr> Clientset = clientset opts,
       RestConfig = restConfig opts,
       Namespace = userSpecifiedNamespace opts,
       Pod = userSpecifiedPod opts,
       Container = userSpecifiedContainer opts,
       Src = userSpecifiedLocalTcpdumpPath opts,
       Dst = userSpecifiedRemoteTcpdumpPath opts \<rparr>"

definition UploadTcpdumpIfMissing :: "'w Env \<Rightarrow> SniffOptions \<Rightarrow> 'w State
    \<Rightarrow> error option \<times> 'w State" where
  "UploadTcpdumpIfMissing env opts s =
     (case CheckIfTcpdumpExistOnPod env opts (userSpecifiedRemoteTcpdumpPath opts) s of
        ((isExist, Some e), s1) \<Rightarrow> (Some e, s1)
      | ((isExist, None), s1) \<Rightarrow>
          if isExist then (None, s1)
          else
            (case kube_PodUploadFile env (uploadFileRequest opts) s1 of
               ((exitCode', err), s2) \<Rightarrow>
                 if err \<noteq> None \<or> exitCode' \<noteq> 0 then (errors_Wrapf err exitCode', s2)
                 else (None, s2)))"

subsection \<open>The capture and Run\<close>

definition executeTcpdumpRequest :: "SniffOptions \<Rightarrow> Sink \<Rightarrow> ExecCommandRequest" where
  "executeTcpdumpRequest opts stdOut =
     \<lparr> Clientset = clientset opts,
       RestConfig = restConfig opts,
       Namespace = userSpecifiedNamespace opts,
       Pod = userSpecifiedPod opts,
       Container = userSpecifiedContainer opts,
       Command = [userSpecifiedRemoteTcpdumpPath opts, ''-U'', ''-w'', ''-''],
       StdOut = stdOut,
       StdErr = KubeNopWriter \<rparr>"

text \<open>
  \<^verbatim>\<open>ExecuteTcpdumpOnRemotePod\<close> has no result: what \<^verbatim>\<open>kube.PodExecuteCommand\<close>
  returns is dropped, and only the effect on the world is left.
\<close>

definition ExecuteTcpdumpOnRemotePod :: "'w Env \<Rightarrow> SniffOptions \<Rightarrow> Sink \<Rightarrow> 'w State \<Rightarrow> 'w State" where
  "ExecuteTcpdumpOnRemotePod env opts stdOut s =
     snd (kube_PodExecuteCommand env (executeTcpdumpRequest opts stdOut) s)"

definition wiresharkCommand :: "string list" where
  "wiresharkCommand = [''wireshark'', ''-k'', ''-i'', ''-'']"

text \<open>
  In the viewer branch the capture is started with \<^verbatim>\<open>go\<close> and nothing is ever read
  back from it; \<^verbatim>\<open>Run\<close> returns what \<^verbatim>\<open>cmd.Run()\<close> returns. The model starts the
  capture before the viewer, as the source does, and does not interleave the two.
\<close>

definition Run :: "'w Env \<Rightarrow> SniffOptions \<Rightarrow> 'w State \<Rightarrow> error option \<times> 'w State" where
  "Run env opts s =
     (case UploadTcpdumpIfMissing env opts s of
        (Some e, s1) \<Rightarrow> (Some e, s1)
      | (None, s1) \<Rightarrow>
          if userSpecifiedOutputFile opts \<noteq> '''' then
            (case os_Create env (userSpecifiedOutputFile opts) s1 of
               (Some e, s2) \<Rightarrow> (Some e, s2)
             | (None, s2) \<Rightarrow>
                 (None, ExecuteTcpdumpOnRemotePod env opts (FileSink (userSpecifiedOutputFile opts)) s2))
          else
            (case cmd_StdinPipe env wiresharkCommand s1 of
               (Some e, s2) \<Rightarrow> (Some e, s2)
             | (None, s2) \<Rightarrow>
                 cmd_Run env wiresharkCommand (ExecuteTcpdumpOnRemotePod env opts ViewerStdin s2)))"

text \<open>The \<^verbatim>\<open>RunE\<close> of the cobra command: Complete, Validate, Run, stopping at the first error.\<close>

definition RunE :: "'w Env \<Rightarrow> SniffOptions \<Rightarrow> string list \<Rightarrow> 'w State
    \<Rightarrow> error option \<times> SniffOptions \<times> 'w State" where
  "RunE env opts args s =
     (case Complete env opts args s of
        (Some e, o1, s1) \<Rightarrow> (Some e, o1, s1)
      | (None, o1, s1) \<Rightarrow>
          (case Validate env o1 s1 of
             (Some e, o2, s2) \<Rightarrow> (Some e, o2, s2)
           | (None, o2, s2) \<Rightarrow>
               (case Run env o2 s2 of (r, s3) \<Rightarrow> (r, o2, s3))))"

subsection \<open>Observations on a trace\<close>

fun isUpload :: "Event \<Rightarrow> bool" where
  "isUpload (UploadEvent r) = True"
| "isUpload e = False"

fun isChannel :: "Event \<Rightarrow> bool" where
  "isChannel (ExecEvent r) = True"
| "isChannel (UploadEvent r) = True"
| "isChannel e = False"

fun execArgv :: "Event \<Rightarrow> string list list" where
  "execArgv (ExecEvent r) = [Command r]"
| "execArgv e = []"

text \<open>The number of uploads, the remote command channels opened, and the argvs executed remotely.\<close>

definition uploads :: "Event list \<Rightarrow> nat" where
  "uploads tr = length (filter isUpload tr)"

definition channels :: "Event list \<Rightarrow> Event list" where
  "channels tr = filter isChannel tr"

definition execArgvs :: "Event list \<Rightarrow> string list list" where
  "execArgvs tr = concat (map execArgv tr)"

text \<open>
  The same environment, but with the result the capture command hands back replaced by
  \<open>r'\<close> (the world it leaves is kept). The capture command is recognised by its argv.
\<close>

definition withRelayResult :: "SniffOptions \<Rightarrow> ExecResult \<Rightarrow> 'w Env \<Rightarrow> 'w Env" where
  "withRelayResult opts r' env =
     env\<lparr>PodExecuteCommand := (\<lambda>req w.
        case PodExecuteCommand env req w of
          (r, w') \<Rightarrow>
            (if Command req = [userSpecifiedRemoteTcpdumpPath opts, ''-U'', ''-w'', ''-''] then r' else r, w'))\<rparr>"

subsection \<open>An in-memory environment\<close>

text \<open>
  A small concrete environment to run the functions on. Its world is the list of files
  present in the container. The presence probe succeeds on a listed file and otherwise
  answers as the script says; an upload that returns exit code 0 and no error adds its
  destination; every other answer is read off the script.
\<close>

record Script =
  podLookup :: "string + Pod"
  probeWhenAbsent :: ExecResult
  uploadResult :: "int \<times> string option"
  captureResult :: ExecResult
  createResult :: "string option"
  pipeResult :: "string option"
  viewerResult :: "string option"

definition minikubeConfig :: Config where
  "minikubeConfig =
     \<lparr> CurrentContext = ''minikube'',
       Contexts = [''minikube'' \<mapsto>
         \<lparr> Cluster = ''minikube'', AuthInfo = ''minikube'', ContextNamespace = [] \<rparr>] \<rparr>"

definition fakeEnv :: "Script \<Rightarrow> (string list) Env" where
  "fakeEnv sc =
     \<lparr> RawConfig = (\<lambda>w. (Inr minikubeConfig, w)),
       ToRESTConfig = (\<lambda>w. (Inr \<lparr> Host = ''https://192.168.99.100:8443'', Timeout = 0 \<rparr>, w)),
       NewForConfig = (\<lambda>cfg w. (Inr (ClientsetHandle 0), w)),
       GetPod = (\<lambda>cs ns name w. (podLookup sc, w)),
       PodExecuteCommand = (\<lambda>req w.
         (case Command req of
            [sh, c, line] \<Rightarrow>
              if drop 8 line \<in> set w
              then \<lparr> exitCode = 0, execErr = None, stdOutOutput = drop 8 line, stdErrOutput = [] \<rparr>
              else probeWhenAbsent sc
          | _ \<Rightarrow> captureResult sc, w)),
       PodUploadFile = (\<lambda>req w.
         (uploadResult sc, if uploadResult sc = (0, None) then Dst req # w else w)),
       Create = (\<lambda>path w. (createResult sc, w)),
       StdinPipe = (\<lambda>argv w. (pipeResult sc, w)),
       CmdRun = (\<lambda>argv w. (viewerResult sc, w)) \<rparr>"

definition runningPod :: "string list \<Rightarrow> Pod" where
  "runningPod names =
     \<lparr> Spec = \<lparr> Containers = map (\<lambda>n. \<lparr> Name = n \<rparr>) names \<rparr>,
       Status = \<lparr> Phase = ''Running'' \<rparr> \<rparr>"

definition lsNoSuchFile :: ExecResult where
  "lsNoSuchFile =
     \<lparr> exitCode = 2, execErr = None, stdOutOutput = [],
       stdErrOutput = ''ls: /tmp/static-tcpdump: No such file or directory'' \<rparr>"

definition captureStopped :: ExecResult where
  "captureStopped = \<lparr> exitCode = 0, execErr = None, stdOutOutput = [], stdErrOutput = [] \<rparr>"

definition captureBroken :: ExecResult where
  "captureBroken =
     \<lparr> exitCode = 0, execErr = Some ''error dialing backend: EOF'', stdOutOutput = [], stdErrOutput = [] \<rparr>"

text \<open>The script in which every collaborator succeeds, and the pod \<^verbatim>\<open>web-1\<close> with one container.\<close>

definition allGood :: Script where
  "allGood =
     \<lparr> podLookup = Inr (runningPod [''nginx'']),
       probeWhenAbsent = lsNoSuchFile,
       uploadResult = (0, None),
       captureResult = captureStopped,
       createResult = None,
       pipeResult = None,
       viewerResult = None \<rparr>"

definition web1 :: SniffOptions where
  "web1 =
     flagDefaults
       \<lparr> userSpecifiedPod := ''web-1'',
         userSpecifiedContainer := ''nginx'',
         rawConfig := minikubeConfig \<rparr>"

text \<open>The options \<^verbatim>\<open>Complete\<close> yields for \<^verbatim>\<open>kubectl sniff web-1\<close> in this environment.\<close>

definition web1Completed :: SniffOptions where
  "web1Completed =
     flagDefaults
       \<lparr> userSpecifiedPod := ''web-1'',
         rawConfig := minikubeConfig,
         restConfig := Some \<lparr> Host = ''https://192.168.99.100:8443'', Timeout = 30000000000 \<rparr>,
         clientset := Some (ClientsetHandle 0),
         resultingContext :=
           Some \<lparr> Cluster = ''minikube'', AuthInfo = ''minikube'', ContextNamespace = ''default'' \<rparr> \<rparr>"

definition emptyContainer :: "string list State" where
  "emptyContainer = \<lparr> world = [], trace = [] \<rparr>"

definition provisionedContainer :: "string list State" where
  "provisionedContainer = \<lparr> world = [tcpdumpRemotePath], trace = [] \<rparr>"

text \<open>
  Variations: a listing that exits with 0 but writes a warning, the same options with an
  output file, and pods that are missing, completed or without containers.
\<close>

definition probeWarning :: ExecResult where
  "probeWarning =
     \<lparr> exitCode = 0, execErr = None, stdOutOutput = [],
       stdErrOutput = ''ls: warning: cannot read timestamps'' \<rparr>"

definition web1ToFile :: SniffOptions where
  "web1ToFile = web1\<lparr>userSpecifiedOutputFile := ''out.pcap''\<rparr>"

definition podNotFound :: Script where
  "podNotFound = allGood\<lparr>podLookup := Inl ''pods web-1 not found''\<rparr>"

definition podSucceeded :: Script where
  "podSucceeded =
     allGood\<lparr>podLookup := Inr ((runningPod [''nginx''])\<lparr>Status := \<lparr> Phase = ''Succeeded'' \<rparr>\<rparr>)\<rparr>"

definition podWithoutContainers :: Script where
  "podWithoutContainers = allGood\<lparr>podLookup := Inr (runningPod [])\<rparr>"

section \<open>Properties\<close>

subsection \<open>Traces of the calls\<close>

text \<open>
  Each call appends exactly its own event, and the observations on a trace distribute
  over the events.
\<close>

lemmas call_defs = pods_Get_def kube_PodExecuteCommand_def kube_PodUploadFile_def
  os_Create_def cmd_StdinPipe_def cmd_Run_def

lemma kube_PodExecuteCommand_trace:
  "trace (snd (kube_PodExecuteCommand env req s)) = trace s @ [ExecEvent req]"
  by (simp add: kube_PodExecuteCommand_def split: prod.splits)

lemma kube_PodUploadFile_trace:
  "trace (snd (kube_PodUploadFile env req s)) = trace s @ [UploadEvent req]"
  by (simp add: kube_PodUploadFile_def split: prod.splits)

lemma os_Create_trace:
  "trace (snd (os_Create env path s)) = trace s @ [CreateEvent path]"
  by (simp add: os_Create_def split: prod.splits)

lemma cmd_StdinPipe_trace:
  "trace (snd (cmd_StdinPipe env argv s)) = trace s @ [StdinPipeEvent argv]"
  by (simp add: cmd_StdinPipe_def split: prod.splits)

lemma cmd_Run_trace:
  "trace (snd (cmd_Run env argv s)) = trace s @ [CmdRunEvent argv]"
  by (simp add: cmd_Run_def split: prod.splits)

lemma pods_Get_trace:
  "trace (snd (pods_Get env cs ns name s)) = trace s @ [GetPodEvent ns name]"
  by (simp add: pods_Get_def split: prod.splits)

lemma CheckIfTcpdumpExistOnPod_state:
  "snd (CheckIfTcpdumpExistOnPod env opts p s) =
     snd (kube_PodExecuteCommand env (checkTcpdumpRequest opts p) s)"
  by (simp add: CheckIfTcpdumpExistOnPod_def split: prod.splits option.splits)

lemma CheckIfTcpdumpExistOnPod_trace:
  "trace (snd (CheckIfTcpdumpExistOnPod env opts p s)) =
     trace s @ [ExecEvent (checkTcpdumpRequest opts p)]"
  by (simp add: CheckIfTcpdumpExistOnPod_state kube_PodExecuteCommand_trace)

lemma ExecuteTcpdumpOnRemotePod_trace:
  "trace (ExecuteTcpdumpOnRemotePod env opts sink s) =
     trace s @ [ExecEvent (executeTcpdumpRequest opts sink)]"
  by (simp add: ExecuteTcpdumpOnRemotePod_def kube_PodExecuteCommand_trace)

lemma uploads_append: "uploads (xs @ ys) = uploads xs + uploads ys"
  by (simp add: uploads_def)

lemma channels_append: "channels (xs @ ys) = channels xs @ channels ys"
  by (simp add: channels_def)

lemma execArgvs_append: "execArgvs (xs @ ys) = execArgvs xs @ execArgvs ys"
  by (simp add: execArgvs_def)

lemma uploads_Nil [simp]: "uploads [] = 0"
  by (simp add: uploads_def)

lemma uploads_Cons [simp]: "uploads (e # es) = (if isUpload e then 1 else 0) + uploads es"
  by (simp add: uploads_def)

lemma channels_Nil [simp]: "channels [] = []"
  by (simp add: channels_def)

lemma channels_Cons [simp]: "channels (e # es) = (if isChannel e then [e] else []) @ channels es"
  by (simp add: channels_def)

lemma execArgvs_Nil [simp]: "execArgvs [] = []"
  by (simp add: execArgvs_def)

lemma execArgvs_Cons [simp]: "execArgvs (e # es) = execArgv e @ execArgvs es"
  by (simp add: execArgvs_def)

text \<open>
  The definitions to unfold when a function is run on the in-memory environment.
\<close>

lemmas fixture_defs = fakeEnv_def allGood_def web1_def NewSniffOptions_def flagDefaults_def emptyContainer_def
  minikubeConfig_def
  provisionedContainer_def runningPod_def lsNoSuchFile_def captureStopped_def captureBroken_def
  tcpdumpLocalPath_def tcpdumpRemotePath_def wiresharkCommand_def probeWarning_def
  web1ToFile_def podNotFound_def podSucceeded_def podWithoutContainers_def

lemmas sniff_defs = Run_def UploadTcpdumpIfMissing_def CheckIfTcpdumpExistOnPod_def
  ExecuteTcpdumpOnRemotePod_def checkTcpdumpRequest_def uploadFileRequest_def
  executeTcpdumpRequest_def errors_Wrapf_def call_defs

subsection \<open>The presence probe\<close>

text \<open>
  C10. For every remote path \<open>p\<close> the probe executes exactly one remote command, and
  its argv is \<^verbatim>\<open>/bin/sh\<close>, \<^verbatim>\<open>-c\<close> and the string \<^verbatim>\<open>ls -alt\<close> followed by a blank and
  \<open>p\<close> as it is: the path is put into the shell command line with no quoting and no
  escaping, so whatever characters it holds reach the remote shell as part of the line.
\<close>

theorem probe_argv:
  "execArgvs (trace (snd (CheckIfTcpdumpExistOnPod env opts p s))) =
     execArgvs (trace s) @ [[''/bin/sh'', ''-c'', ''ls -alt '' @ p]]"
  by (simp add: CheckIfTcpdumpExistOnPod_trace execArgvs_append checkTcpdumpRequest_def)

text \<open>
  C7. The probe classifies what the remote command returned, in this order: an error of
  the channel is returned as an error; otherwise a non-zero exit code means absent (false
  and no error); otherwise output on the error stream is the error
  \<^verbatim>\<open>failed to check for tcpdump\<close>, which differs from the absent result; otherwise the
  binary is present (true and no error).
\<close>

theorem CheckIfTcpdumpExistOnPod_classification:
  assumes "fst (PodExecuteCommand env (checkTcpdumpRequest opts p) (world s)) = r"
  shows "(execErr r = None \<and> exitCode r = 0 \<and> stdErrOutput r = [] \<longrightarrow>
            fst (CheckIfTcpdumpExistOnPod env opts p s) = (True, None))
       \<and> (execErr r = None \<and> exitCode r \<noteq> 0 \<longrightarrow>
            fst (CheckIfTcpdumpExistOnPod env opts p s) = (False, None))
       \<and> (execErr r = None \<and> exitCode r = 0 \<and> stdErrOutput r \<noteq> [] \<longrightarrow>
            fst (CheckIfTcpdumpExistOnPod env opts p s) = (False, Some FailedToCheckForTcpdump))
       \<and> (\<forall>e. execErr r = Some e \<longrightarrow>
            fst (CheckIfTcpdumpExistOnPod env opts p s) = (False, Some (External e)))"
  using assms
  by (auto simp add: CheckIfTcpdumpExistOnPod_def kube_PodExecuteCommand_def
      split: prod.splits option.splits)

text \<open>
  The four cases on the in-memory environment: the binary listed, the binary missing,
  a listing that exits with 0 but writes a warning, and a broken channel.
\<close>

theorem CheckIfTcpdumpExistOnPod_classification_witness:
  "fst (CheckIfTcpdumpExistOnPod (fakeEnv allGood) web1 tcpdumpRemotePath provisionedContainer)
     = (True, None)
   \<and> fst (CheckIfTcpdumpExistOnPod (fakeEnv allGood) web1 tcpdumpRemotePath emptyContainer)
     = (False, None)
   \<and> fst (CheckIfTcpdumpExistOnPod (fakeEnv (allGood\<lparr>probeWhenAbsent := probeWarning\<rparr>)) web1
            tcpdumpRemotePath emptyContainer)
     = (False, Some FailedToCheckForTcpdump)
   \<and> fst (CheckIfTcpdumpExistOnPod (fakeEnv (allGood\<lparr>probeWhenAbsent := captureBroken\<rparr>)) web1
            tcpdumpRemotePath emptyContainer)
     = (False, Some (External ''error dialing backend: EOF''))"
  using CheckIfTcpdumpExistOnPod_classification
          [OF refl, of "fakeEnv allGood" web1 tcpdumpRemotePath provisionedContainer]
        CheckIfTcpdumpExistOnPod_classification
          [OF refl, of "fakeEnv allGood" web1 tcpdumpRemotePath emptyContainer]
        CheckIfTcpdumpExistOnPod_classification
          [OF refl, of "fakeEnv (allGood\<lparr>probeWhenAbsent := probeWarning\<rparr>)" web1
             tcpdumpRemotePath emptyContainer]
        CheckIfTcpdumpExistOnPod_classification
          [OF refl, of "fakeEnv (allGood\<lparr>probeWhenAbsent := captureBroken\<rparr>)" web1
             tcpdumpRemotePath emptyContainer]
  by (simp add: fixture_defs checkTcpdumpRequest_def)

subsection \<open>Provisioning\<close>

text \<open>
  What \<^verbatim>\<open>UploadTcpdumpIfMissing\<close> does, by the outcome of the probe.
\<close>

lemma UploadTcpdumpIfMissing_probe_error:
  assumes "fst (CheckIfTcpdumpExistOnPod env opts (userSpecifiedRemoteTcpdumpPath opts) s) = (b, Some e)"
  shows "UploadTcpdumpIfMissing env opts s =
           (Some e, snd (CheckIfTcpdumpExistOnPod env opts (userSpecifiedRemoteTcpdumpPath opts) s))"
proof -
  obtain s1 where "CheckIfTcpdumpExistOnPod env opts (userSpecifiedRemoteTcpdumpPath opts) s = ((b, Some e), s1)"
    using assms by (cases "CheckIfTcpdumpExistOnPod env opts (userSpecifiedRemoteTcpdumpPath opts) s") simp
  then show ?thesis by (simp add: UploadTcpdumpIfMissing_def)
qed

lemma UploadTcpdumpIfMissing_present:
  assumes "fst (CheckIfTcpdumpExistOnPod env opts (userSpecifiedRemoteTcpdumpPath opts) s) = (True, None)"
  shows "UploadTcpdumpIfMissing env opts s =
           (None, snd (CheckIfTcpdumpExistOnPod env opts (userSpecifiedRemoteTcpdumpPath opts) s))"
proof -
  obtain s1 where "CheckIfTcpdumpExistOnPod env opts (userSpecifiedRemoteTcpdumpPath opts) s = ((True, None), s1)"
    using assms by (cases "CheckIfTcpdumpExistOnPod env opts (userSpecifiedRemoteTcpdumpPath opts) s") simp
  then show ?thesis by (simp add: UploadTcpdumpIfMissing_def)
qed

lemma UploadTcpdumpIfMissing_absent:
  assumes "fst (CheckIfTcpdumpExistOnPod env opts (userSpecifiedRemoteTcpdumpPath opts) s) = (False, None)"
    and "kube_PodUploadFile env (uploadFileRequest opts)
           (snd (CheckIfTcpdumpExistOnPod env opts (userSpecifiedRemoteTcpdumpPath opts) s)) = ((c, err), s2)"
  shows "UploadTcpdumpIfMissing env opts s =
           (if err \<noteq> None \<or> c \<noteq> 0 then errors_Wrapf err c else None, s2)"
proof -
  obtain s1 where "CheckIfTcpdumpExistOnPod env opts (userSpecifiedRemoteTcpdumpPath opts) s = ((False, None), s1)"
    using assms(1) by (cases "CheckIfTcpdumpExistOnPod env opts (userSpecifiedRemoteTcpdumpPath opts) s") simp
  then show ?thesis using assms(2) by (simp add: UploadTcpdumpIfMissing_def)
qed

lemma UploadTcpdumpIfMissing_uploads:
  "uploads (trace (snd (UploadTcpdumpIfMissing env opts s))) =
     uploads (trace s) +
       (if fst (CheckIfTcpdumpExistOnPod env opts (userSpecifiedRemoteTcpdumpPath opts) s) = (False, None)
        then 1 else 0)"
proof (cases "fst (CheckIfTcpdumpExistOnPod env opts (userSpecifiedRemoteTcpdumpPath opts) s)")
  case (Pair b err)
  show ?thesis
  proof (cases err)
    case (Some e)
    with Pair show ?thesis
      by (simp add: UploadTcpdumpIfMissing_probe_error CheckIfTcpdumpExistOnPod_trace uploads_append)
  next
    case None
    show ?thesis
    proof (cases b)
      case True
      with Pair None show ?thesis
        by (simp add: UploadTcpdumpIfMissing_present CheckIfTcpdumpExistOnPod_trace uploads_append)
    next
      case False
      obtain c err' s2 where up: "kube_PodUploadFile env (uploadFileRequest opts)
           (snd (CheckIfTcpdumpExistOnPod env opts (userSpecifiedRemoteTcpdumpPath opts) s)) = ((c, err'), s2)"
        by (metis prod.exhaust)
      have "trace s2 = trace (snd (CheckIfTcpdumpExistOnPod env opts (userSpecifiedRemoteTcpdumpPath opts) s))
              @ [UploadEvent (uploadFileRequest opts)]"
        using kube_PodUploadFile_trace [of env "uploadFileRequest opts"
            "snd (CheckIfTcpdumpExistOnPod env opts (userSpecifiedRemoteTcpdumpPath opts) s)"] up
        by simp
      with Pair None False up show ?thesis
        by (simp add: UploadTcpdumpIfMissing_absent [OF _ up]
            CheckIfTcpdumpExistOnPod_trace uploads_append)
    qed
  qed
qed

lemma Run_uploads:
  "uploads (trace (snd (Run env opts s))) = uploads (trace (snd (UploadTcpdumpIfMissing env opts s)))"
proof (cases "UploadTcpdumpIfMissing env opts s")
  case (Pair r s1)
  show ?thesis
  proof (cases r)
    case (Some e)
    with Pair show ?thesis by (simp add: Run_def)
  next
    case None
    show ?thesis
    proof (cases "userSpecifiedOutputFile opts = ''''")
      case True
      obtain p s2 where pipe: "cmd_StdinPipe env wiresharkCommand s1 = (p, s2)"
        by (cases "cmd_StdinPipe env wiresharkCommand s1")
      have tr: "trace s2 = trace s1 @ [StdinPipeEvent wiresharkCommand]"
        using cmd_StdinPipe_trace [of env wiresharkCommand s1] pipe by simp
      show ?thesis
        using Pair None True pipe tr
        by (cases p)
           (simp_all add: Run_def cmd_Run_trace ExecuteTcpdumpOnRemotePod_trace uploads_append)
    next
      case False
      obtain c s2 where cr: "os_Create env (userSpecifiedOutputFile opts) s1 = (c, s2)"
        by (cases "os_Create env (userSpecifiedOutputFile opts) s1")
      have tr: "trace s2 = trace s1 @ [CreateEvent (userSpecifiedOutputFile opts)]"
        using os_Create_trace [of env "userSpecifiedOutputFile opts" s1] cr by simp
      show ?thesis
        using Pair None False cr tr
        by (cases c) (simp_all add: Run_def ExecuteTcpdumpOnRemotePod_trace uploads_append)
    qed
  qed
qed

lemma Run_uploads_probe:
  "uploads (trace (snd (Run env opts s))) =
     uploads (trace s) +
       (if fst (CheckIfTcpdumpExistOnPod env opts (userSpecifiedRemoteTcpdumpPath opts) s) = (False, None)
        then 1 else 0)"
  by (simp only: Run_uploads UploadTcpdumpIfMissing_uploads)

text \<open>
  C8. Provisioning is idempotent. One run performs an upload if and only if its probe
  reports the binary absent (false and no error): the number of uploads grows by one in
  that case and stays as it was in every other, in particular when the probe reports the
  binary present. Hence, when the probe of a second run finds the binary present, two
  runs in sequence perform at most one upload in total.
\<close>

theorem provisioning_idempotent:
  "uploads (trace (snd (Run env opts s))) =
     uploads (trace s) +
       (if fst (CheckIfTcpdumpExistOnPod env opts (userSpecifiedRemoteTcpdumpPath opts) s) = (False, None)
        then 1 else 0)
   \<and> (fst (fst (CheckIfTcpdumpExistOnPod env opts (userSpecifiedRemoteTcpdumpPath opts)
                  (snd (Run env opts s)))) \<longrightarrow>
        uploads (trace (snd (Run env opts (snd (Run env opts s))))) \<le> uploads (trace s) + 1)"
proof (intro conjI impI)
  show "uploads (trace (snd (Run env opts s))) =
     uploads (trace s) +
       (if fst (CheckIfTcpdumpExistOnPod env opts (userSpecifiedRemoteTcpdumpPath opts) s) = (False, None)
        then 1 else 0)"
    by (rule Run_uploads_probe)
next
  let ?s1 = "snd (Run env opts s)"
  assume present: "fst (fst (CheckIfTcpdumpExistOnPod env opts (userSpecifiedRemoteTcpdumpPath opts) ?s1))"
  then have "fst (CheckIfTcpdumpExistOnPod env opts (userSpecifiedRemoteTcpdumpPath opts) ?s1) \<noteq> (False, None)"
    by auto
  then have "uploads (trace (snd (Run env opts ?s1))) = uploads (trace ?s1)"
    by (simp add: Run_uploads_probe)
  also have "\<dots> \<le> uploads (trace s) + 1"
    by (simp add: Run_uploads_probe)
  finally show "uploads (trace (snd (Run env opts ?s1))) \<le> uploads (trace s) + 1" .
qed

text \<open>
  On the in-memory environment, starting from a container without the binary: the first
  run uploads once, the probe of the second run finds the binary, and the total stays at
  one upload.
\<close>

theorem provisioning_idempotent_witness:
  "uploads (trace (snd (Run (fakeEnv allGood) web1 emptyContainer))) = 1
   \<and> fst (fst (CheckIfTcpdumpExistOnPod (fakeEnv allGood) web1 (userSpecifiedRemoteTcpdumpPath web1)
                 (snd (Run (fakeEnv allGood) web1 emptyContainer))))
   \<and> uploads (trace (snd (Run (fakeEnv allGood) web1 (snd (Run (fakeEnv allGood) web1 emptyContainer))))) = 1"
  using provisioning_idempotent [of "fakeEnv allGood" web1 emptyContainer]
  by (simp add: sniff_defs fixture_defs)

text \<open>
  C4. The claim is that a probe failure (exit code 0 with output on the error stream) is
  treated as absent, so that the upload is attempted. The code returns the probe's error
  instead. With a listing that exits with 0 and writes a warning, the run ends with
  \<^verbatim>\<open>failed to check for tcpdump\<close> and no upload has been made.
\<close>

theorem probe_error_skips_upload_counterexample:
  "fst (PodExecuteCommand (fakeEnv (allGood\<lparr>probeWhenAbsent := probeWarning\<rparr>))
          (checkTcpdumpRequest web1 (userSpecifiedRemoteTcpdumpPath web1)) (world emptyContainer))
     = \<lparr> exitCode = 0, execErr = None, stdOutOutput = [],
         stdErrOutput = ''ls: warning: cannot read timestamps'' \<rparr>
   \<and> fst (Run (fakeEnv (allGood\<lparr>probeWhenAbsent := probeWarning\<rparr>)) web1 emptyContainer)
     = Some FailedToCheckForTcpdump
   \<and> uploads (trace (snd (Run (fakeEnv (allGood\<lparr>probeWhenAbsent := probeWarning\<rparr>)) web1 emptyContainer)))
     = 0"
  by (simp add: sniff_defs fixture_defs)

text \<open>
  C4, as the code has it. When the probe command returns no channel error, exit code 0
  and a non-empty error stream, \<^verbatim>\<open>UploadTcpdumpIfMissing\<close> returns the error
  \<^verbatim>\<open>failed to check for tcpdump\<close>, and \<^verbatim>\<open>Run\<close> returns it too, having executed
  nothing but the probe: no upload is attempted and no capture is launched.
\<close>

theorem probe_error_aborts:
  assumes "fst (PodExecuteCommand env
             (checkTcpdumpRequest opts (userSpecifiedRemoteTcpdumpPath opts)) (world s)) = r"
    and "execErr r = None" and "exitCode r = 0" and "stdErrOutput r \<noteq> []"
  shows "fst (UploadTcpdumpIfMissing env opts s) = Some FailedToCheckForTcpdump
       \<and> fst (Run env opts s) = Some FailedToCheckForTcpdump
       \<and> trace (snd (Run env opts s)) =
           trace s @ [ExecEvent (checkTcpdumpRequest opts (userSpecifiedRemoteTcpdumpPath opts))]"
proof -
  have probe: "fst (CheckIfTcpdumpExistOnPod env opts (userSpecifiedRemoteTcpdumpPath opts) s)
                 = (False, Some FailedToCheckForTcpdump)"
    using assms
    by (auto simp add: CheckIfTcpdumpExistOnPod_def kube_PodExecuteCommand_def
        split: prod.splits option.splits)
  have up: "UploadTcpdumpIfMissing env opts s =
              (Some FailedToCheckForTcpdump,
               snd (CheckIfTcpdumpExistOnPod env opts (userSpecifiedRemoteTcpdumpPath opts) s))"
    by (rule UploadTcpdumpIfMissing_probe_error [OF probe])
  then have run: "Run env opts s =
              (Some FailedToCheckForTcpdump,
               snd (CheckIfTcpdumpExistOnPod env opts (userSpecifiedRemoteTcpdumpPath opts) s))"
    by (simp add: Run_def)
  show ?thesis
    by (simp add: up run CheckIfTcpdumpExistOnPod_trace)
qed

theorem probe_error_aborts_witness:
  "stdErrOutput probeWarning \<noteq> []
   \<and> fst (UploadTcpdumpIfMissing (fakeEnv (allGood\<lparr>probeWhenAbsent := probeWarning\<rparr>)) web1 emptyContainer)
       = Some FailedToCheckForTcpdump
   \<and> fst (Run (fakeEnv (allGood\<lparr>probeWhenAbsent := probeWarning\<rparr>)) web1 emptyContainer)
       = Some FailedToCheckForTcpdump
   \<and> execArgvs (trace (snd (Run (fakeEnv (allGood\<lparr>probeWhenAbsent := probeWarning\<rparr>)) web1 emptyContainer)))
       = [[''/bin/sh'', ''-c'', ''ls -alt /tmp/static-tcpdump'']]"
  using probe_error_aborts
          [OF refl, of "fakeEnv (allGood\<lparr>probeWhenAbsent := probeWarning\<rparr>)" web1 emptyContainer]
  by (simp add: fixture_defs checkTcpdumpRequest_def)

text \<open>
  An upload that ends with a non-zero exit code and no error takes the failure branch,
  where \<^verbatim>\<open>errors.Wrapf\<close> is given the nil error and returns nil.
\<close>

lemma errors_Wrapf_nil: "errors_Wrapf None c = None"
  by (simp add: errors_Wrapf_def)

lemma UploadTcpdumpIfMissing_exit_code_lost:
  assumes "fst (CheckIfTcpdumpExistOnPod env opts (userSpecifiedRemoteTcpdumpPath opts) s) = (False, None)"
    and "fst (kube_PodUploadFile env (uploadFileRequest opts)
           (snd (CheckIfTcpdumpExistOnPod env opts (userSpecifiedRemoteTcpdumpPath opts) s))) = (c, None)"
  shows "fst (UploadTcpdumpIfMissing env opts s) = None"
proof -
  obtain s2 where "kube_PodUploadFile env (uploadFileRequest opts)
           (snd (CheckIfTcpdumpExistOnPod env opts (userSpecifiedRemoteTcpdumpPath opts) s)) = ((c, None), s2)"
    using assms(2) by (metis prod.collapse)
  from UploadTcpdumpIfMissing_absent [OF assms(1) this] show ?thesis
    by (simp add: errors_Wrapf_def)
qed

text \<open>
  C2. The claim is that a non-zero exit status of the upload, with or without an error
  next to it, makes \<^verbatim>\<open>UploadTcpdumpIfMissing\<close> return an error, so that the run stops
  before the capture. Evaluated where the probe reports absent and the upload returns exit
  code 1 and no error: \<^verbatim>\<open>Run\<close> returns no error, and after the one upload it has
  launched the capture.
\<close>

theorem failed_upload_not_reported:
  "fst (Run (fakeEnv (allGood\<lparr>uploadResult := (1, None)\<rparr>)) web1ToFile emptyContainer) = None
   \<and> uploads (trace (snd (Run (fakeEnv (allGood\<lparr>uploadResult := (1, None)\<rparr>)) web1ToFile emptyContainer))) = 1
   \<and> execArgvs (trace (snd (Run (fakeEnv (allGood\<lparr>uploadResult := (1, None)\<rparr>)) web1ToFile emptyContainer)))
       = [[''/bin/sh'', ''-c'', ''ls -alt /tmp/static-tcpdump''],
          [''/tmp/static-tcpdump'', ''-U'', ''-w'', ''-'']]"
  by (simp add: sniff_defs fixture_defs)

subsection \<open>The capture\<close>

lemma ExecuteTcpdumpOnRemotePod_argv:
  "execArgvs (trace (ExecuteTcpdumpOnRemotePod env opts sink s)) =
     execArgvs (trace s) @ [[userSpecifiedRemoteTcpdumpPath opts, ''-U'', ''-w'', ''-'']]"
  by (simp add: ExecuteTcpdumpOnRemotePod_trace execArgvs_append executeTcpdumpRequest_def)

text \<open>
  C1. The claim is that the capture is launched with the configured remote path, the
  arguments for unbuffered output to standard output, and the filter expression whenever
  one was given. Evaluated for the pod \<^verbatim>\<open>web-1\<close> with the filter \<^verbatim>\<open>port 80\<close>, the
  binary already in place: the remote commands are the probe and then the capture, whose
  argv is the path followed by \<^verbatim>\<open>-U -w -\<close> and nothing else.
\<close>

theorem filter_not_passed_to_tcpdump:
  "execArgvs (trace (snd (Run (fakeEnv allGood)
      (web1ToFile\<lparr>userSpecifiedFilter := ''port 80''\<rparr>) provisionedContainer)))
     = [[''/bin/sh'', ''-c'', ''ls -alt /tmp/static-tcpdump''],
        [''/tmp/static-tcpdump'', ''-U'', ''-w'', ''-'']]"
  by (simp add: sniff_defs fixture_defs)

text \<open>
  The result the capture command hands back never reaches \<^verbatim>\<open>Run\<close>: replacing it
  changes neither what \<^verbatim>\<open>Run\<close> returns nor the state it leaves.
\<close>

lemma checkTcpdumpRequest_not_capture:
  "Command (checkTcpdumpRequest opts p) \<noteq> [q, ''-U'', ''-w'', ''-'']"
  by (simp add: checkTcpdumpRequest_def)

lemma withRelayResult_other [simp]:
  "RawConfig (withRelayResult opts r' env) = RawConfig env"
  "ToRESTConfig (withRelayResult opts r' env) = ToRESTConfig env"
  "NewForConfig (withRelayResult opts r' env) = NewForConfig env"
  "GetPod (withRelayResult opts r' env) = GetPod env"
  "PodUploadFile (withRelayResult opts r' env) = PodUploadFile env"
  "Create (withRelayResult opts r' env) = Create env"
  "StdinPipe (withRelayResult opts r' env) = StdinPipe env"
  "CmdRun (withRelayResult opts r' env) = CmdRun env"
  by (simp_all add: withRelayResult_def)

lemma withRelayResult_world:
  "snd (PodExecuteCommand (withRelayResult opts r' env) req w) = snd (PodExecuteCommand env req w)"
  by (simp add: withRelayResult_def split: prod.splits)

lemma withRelayResult_probe:
  "PodExecuteCommand (withRelayResult opts r' env) (checkTcpdumpRequest opts p) w =
     PodExecuteCommand env (checkTcpdumpRequest opts p) w"
  by (simp add: withRelayResult_def checkTcpdumpRequest_def split: prod.splits)

lemma withRelayResult_capture:
  "fst (PodExecuteCommand (withRelayResult opts r' env) (executeTcpdumpRequest opts sink) w) = r'"
  by (simp add: withRelayResult_def executeTcpdumpRequest_def split: prod.splits)

lemma CheckIfTcpdumpExistOnPod_withRelayResult:
  "CheckIfTcpdumpExistOnPod (withRelayResult opts r' env) opts p s =
     CheckIfTcpdumpExistOnPod env opts p s"
  by (simp add: CheckIfTcpdumpExistOnPod_def kube_PodExecuteCommand_def withRelayResult_probe)

lemma kube_PodUploadFile_withRelayResult:
  "kube_PodUploadFile (withRelayResult opts r' env) = kube_PodUploadFile env"
  by (intro ext) (simp add: kube_PodUploadFile_def)

lemma os_Create_withRelayResult:
  "os_Create (withRelayResult opts r' env) = os_Create env"
  by (intro ext) (simp add: os_Create_def)

lemma cmd_StdinPipe_withRelayResult:
  "cmd_StdinPipe (withRelayResult opts r' env) = cmd_StdinPipe env"
  by (intro ext) (simp add: cmd_StdinPipe_def)

lemma cmd_Run_withRelayResult:
  "cmd_Run (withRelayResult opts r' env) = cmd_Run env"
  by (intro ext) (simp add: cmd_Run_def)

lemma UploadTcpdumpIfMissing_withRelayResult:
  "UploadTcpdumpIfMissing (withRelayResult opts r' env) opts s = UploadTcpdumpIfMissing env opts s"
  unfolding UploadTcpdumpIfMissing_def CheckIfTcpdumpExistOnPod_withRelayResult
    kube_PodUploadFile_withRelayResult
  by (rule refl)

lemma ExecuteTcpdumpOnRemotePod_withRelayResult:
  "ExecuteTcpdumpOnRemotePod (withRelayResult opts r' env) opts sink s =
     ExecuteTcpdumpOnRemotePod env opts sink s"
proof -
  obtain r w where a: "PodExecuteCommand env (executeTcpdumpRequest opts sink) (world s) = (r, w)"
    by (cases "PodExecuteCommand env (executeTcpdumpRequest opts sink) (world s)")
  then have "snd (PodExecuteCommand (withRelayResult opts r' env) (executeTcpdumpRequest opts sink) (world s)) = w"
    by (simp add: withRelayResult_world)
  then obtain r2 where b: "PodExecuteCommand (withRelayResult opts r' env)
      (executeTcpdumpRequest opts sink) (world s) = (r2, w)"
    by (metis prod.collapse)
  show ?thesis
    by (simp add: ExecuteTcpdumpOnRemotePod_def kube_PodExecuteCommand_def a b)
qed

lemma Run_withRelayResult:
  "Run (withRelayResult opts r' env) opts s = Run env opts s"
  unfolding Run_def UploadTcpdumpIfMissing_withRelayResult ExecuteTcpdumpOnRemotePod_withRelayResult
    os_Create_withRelayResult cmd_StdinPipe_withRelayResult cmd_Run_withRelayResult
  by (rule refl)

text \<open>
  C3. The claim is that with an output file \<^verbatim>\<open>Run\<close> returns an error whenever the
  remote capture fails or the channel breaks. With the binary in place and a capture
  command whose channel breaks, \<^verbatim>\<open>Run\<close> returns no error.
\<close>

theorem Run_to_file_drops_relay_status_counterexample:
  "execErr (fst (PodExecuteCommand (fakeEnv (allGood\<lparr>captureResult := captureBroken\<rparr>))
      (executeTcpdumpRequest web1ToFile (FileSink ''out.pcap'')) (world provisionedContainer)))
     = Some ''error dialing backend: EOF''
   \<and> fst (Run (fakeEnv (allGood\<lparr>captureResult := captureBroken\<rparr>)) web1ToFile provisionedContainer)
     = None"
  by (simp add: sniff_defs fixture_defs)

text \<open>
  C3, as the code has it. With an output file, \<^verbatim>\<open>Run\<close> executes the capture before
  it returns, and what it returns does not depend on the result of the capture command:
  when provisioning and the creation of the file succeed, \<^verbatim>\<open>Run\<close> returns no error
  and the capture is the last command of its trace; an error \<^verbatim>\<open>Run\<close> returns is the
  error of provisioning or of the creation of the file.
\<close>

theorem Run_to_file:
  assumes "userSpecifiedOutputFile opts \<noteq> []"
  shows "fst (Run (withRelayResult opts r' env) opts s) = fst (Run env opts s)
       \<and> (UploadTcpdumpIfMissing env opts s = (None, s1) \<and>
            os_Create env (userSpecifiedOutputFile opts) s1 = (None, s2) \<longrightarrow>
            fst (Run env opts s) = None \<and>
            trace (snd (Run env opts s)) =
              trace s2 @ [ExecEvent (executeTcpdumpRequest opts (FileSink (userSpecifiedOutputFile opts)))])
       \<and> (\<forall>e. fst (Run env opts s) = Some e \<longrightarrow>
            fst (UploadTcpdumpIfMissing env opts s) = Some e \<or>
            fst (os_Create env (userSpecifiedOutputFile opts) (snd (UploadTcpdumpIfMissing env opts s))) = Some e)"
proof (intro conjI impI allI)
  show "fst (Run (withRelayResult opts r' env) opts s) = fst (Run env opts s)"
    by (simp add: Run_withRelayResult)
next
  assume ok: "UploadTcpdumpIfMissing env opts s = (None, s1) \<and>
              os_Create env (userSpecifiedOutputFile opts) s1 = (None, s2)"
  with assms show "fst (Run env opts s) = None"
    by (simp add: Run_def)
  from ok assms show "trace (snd (Run env opts s)) =
      trace s2 @ [ExecEvent (executeTcpdumpRequest opts (FileSink (userSpecifiedOutputFile opts)))]"
    by (simp add: Run_def ExecuteTcpdumpOnRemotePod_trace)
next
  fix e
  assume "fst (Run env opts s) = Some e"
  with assms show "fst (UploadTcpdumpIfMissing env opts s) = Some e \<or>
      fst (os_Create env (userSpecifiedOutputFile opts) (snd (UploadTcpdumpIfMissing env opts s))) = Some e"
    by (auto simp add: Run_def split: prod.splits option.splits)
qed

theorem Run_to_file_witness:
  "userSpecifiedOutputFile web1ToFile \<noteq> []
   \<and> fst (Run (withRelayResult web1ToFile captureBroken (fakeEnv allGood)) web1ToFile provisionedContainer)
       = None
   \<and> execArgvs (trace (snd (Run (fakeEnv allGood) web1ToFile provisionedContainer)))
       = [[''/bin/sh'', ''-c'', ''ls -alt /tmp/static-tcpdump''],
          [''/tmp/static-tcpdump'', ''-U'', ''-w'', ''-'']]"
proof -
  have tofile: "userSpecifiedOutputFile web1ToFile \<noteq> []"
    by (simp add: fixture_defs)
  have up: "UploadTcpdumpIfMissing (fakeEnv allGood) web1ToFile provisionedContainer =
      (None, \<lparr> world = [tcpdumpRemotePath],
               trace = [ExecEvent (checkTcpdumpRequest web1ToFile tcpdumpRemotePath)] \<rparr>)"
    by (simp add: sniff_defs fixture_defs)
  have cr: "os_Create (fakeEnv allGood) (userSpecifiedOutputFile web1ToFile)
        \<lparr> world = [tcpdumpRemotePath],
          trace = [ExecEvent (checkTcpdumpRequest web1ToFile tcpdumpRemotePath)] \<rparr> =
      (None, \<lparr> world = [tcpdumpRemotePath],
               trace = [ExecEvent (checkTcpdumpRequest web1ToFile tcpdumpRemotePath),
                        CreateEvent ''out.pcap''] \<rparr>)"
    by (simp add: sniff_defs fixture_defs)
  show ?thesis
    using Run_to_file [OF tofile, of captureBroken "fakeEnv allGood" provisionedContainer
        "\<lparr> world = [tcpdumpRemotePath],
           trace = [ExecEvent (checkTcpdumpRequest web1ToFile tcpdumpRemotePath)] \<rparr>"
        "\<lparr> world = [tcpdumpRemotePath],
           trace = [ExecEvent (checkTcpdumpRequest web1ToFile tcpdumpRemotePath),
                    CreateEvent ''out.pcap''] \<rparr>"] tofile up cr
    by (simp add: checkTcpdumpRequest_def executeTcpdumpRequest_def fixture_defs)
qed

text \<open>
  C9. Without an output file the result of \<^verbatim>\<open>Run\<close> does not depend on the result of
  the capture command, and once provisioning has succeeded and the pipe to the viewer
  exists, \<^verbatim>\<open>Run\<close> returns what running the viewer returns.
\<close>

theorem Run_to_viewer:
  assumes "userSpecifiedOutputFile opts = []"
  shows "fst (Run (withRelayResult opts r' env) opts s) = fst (Run env opts s)
       \<and> (UploadTcpdumpIfMissing env opts s = (None, s1) \<and>
            cmd_StdinPipe env wiresharkCommand s1 = (None, s2) \<longrightarrow>
            fst (Run env opts s) =
              map_option External
                (fst (CmdRun env wiresharkCommand
                   (world (ExecuteTcpdumpOnRemotePod env opts ViewerStdin s2)))))"
proof (intro conjI impI)
  show "fst (Run (withRelayResult opts r' env) opts s) = fst (Run env opts s)"
    by (simp add: Run_withRelayResult)
next
  assume "UploadTcpdumpIfMissing env opts s = (None, s1) \<and>
          cmd_StdinPipe env wiresharkCommand s1 = (None, s2)"
  with assms show "fst (Run env opts s) =
      map_option External
        (fst (CmdRun env wiresharkCommand (world (ExecuteTcpdumpOnRemotePod env opts ViewerStdin s2))))"
    by (simp add: Run_def cmd_Run_def split: prod.splits)
qed

text \<open>
  On the in-memory environment: a broken capture leaves the result at no error, and a
  viewer that fails is what \<^verbatim>\<open>Run\<close> reports.
\<close>

theorem Run_to_viewer_witness:
  "userSpecifiedOutputFile web1 = []
   \<and> fst (Run (withRelayResult web1 captureBroken (fakeEnv allGood)) web1 provisionedContainer) = None
   \<and> fst (Run (fakeEnv (allGood\<lparr>captureResult := captureBroken, viewerResult := Some ''exit status 1''\<rparr>))
          web1 provisionedContainer)
       = Some (External ''exit status 1'')"
proof -
  let ?env = "fakeEnv (allGood\<lparr>captureResult := captureBroken, viewerResult := Some ''exit status 1''\<rparr>)"
  let ?s1 = "\<lparr> world = [tcpdumpRemotePath],
               trace = [ExecEvent (checkTcpdumpRequest web1 tcpdumpRemotePath)] \<rparr>"
  let ?s2 = "\<lparr> world = [tcpdumpRemotePath],
               trace = [ExecEvent (checkTcpdumpRequest web1 tcpdumpRemotePath),
                        StdinPipeEvent wiresharkCommand] \<rparr>"
  have viewer: "userSpecifiedOutputFile web1 = []"
    by (simp add: fixture_defs)
  have up: "UploadTcpdumpIfMissing ?env web1 provisionedContainer = (None, ?s1)"
    by (simp add: sniff_defs fixture_defs)
  have pipe: "cmd_StdinPipe ?env wiresharkCommand ?s1 = (None, ?s2)"
    by (simp add: sniff_defs fixture_defs)
  have good: "fst (Run (fakeEnv allGood) web1 provisionedContainer) = None"
    by (simp add: sniff_defs fixture_defs)
  show ?thesis
    using Run_to_viewer [OF viewer, of captureBroken "fakeEnv allGood" provisionedContainer]
      Run_to_viewer [OF viewer, of captureBroken ?env provisionedContainer ?s1 ?s2]
      viewer up pipe good
    by (simp add: fakeEnv_def allGood_def)
qed

subsection \<open>The client configuration\<close>

text \<open>
  \<^verbatim>\<open>Complete\<close> sets the timeout of the client configuration to thirty seconds, and the
  probe, the upload and the capture are all requested with that one configuration.
\<close>

lemma Complete_Timeout:
  assumes "fst (Complete env opts args s) = None"
  shows "map_option Timeout (restConfig (fst (snd (Complete env opts args s)))) = Some (30 * time_Second)"
  using assms
  by (auto simp add: Complete_def Let_def split: if_splits prod.splits sum.splits option.splits)

lemma requests_share_restConfig:
  "RestConfig (checkTcpdumpRequest opts p) = restConfig opts"
  "RestConfig (uploadFileRequest opts) = restConfig opts"
  "RestConfig (executeTcpdumpRequest opts sink) = restConfig opts"
  by (simp_all add: checkTcpdumpRequest_def uploadFileRequest_def executeTcpdumpRequest_def)

subsection \<open>Validation\<close>

lemma Complete_trace: "trace (snd (snd (Complete env opts args s))) = trace s"
  by (simp add: Complete_def Let_def split: prod.splits sum.splits option.splits)

lemma Validate_channels:
  "channels (trace (snd (snd (Validate env opts s)))) = channels (trace s)"
proof -
  obtain r s1 where g: "pods_Get env (clientset opts) (userSpecifiedNamespace opts)
      (userSpecifiedPod opts) s = (r, s1)"
    by (cases "pods_Get env (clientset opts) (userSpecifiedNamespace opts) (userSpecifiedPod opts) s")
  have "trace s1 = trace s @ [GetPodEvent (userSpecifiedNamespace opts) (userSpecifiedPod opts)]"
    using pods_Get_trace [of env "clientset opts" "userSpecifiedNamespace opts" "userSpecifiedPod opts" s] g
    by simp
  then have "channels (trace s1) = channels (trace s)"
    by (simp add: channels_append)
  then show ?thesis
    using g by (cases r) (simp_all add: Validate_def)
qed

lemma Complete_web1:
  "Complete (fakeEnv sc) flagDefaults [''web-1''] emptyContainer = (None, web1Completed, emptyContainer)"
  by (simp add: Complete_def fakeEnv_def minikubeConfig_def web1Completed_def NewSniffOptions_def flagDefaults_def
      time_Second_def emptyContainer_def)

text \<open>
  C6. The claim includes that a container named by the caller and absent from the pod is
  rejected by the validation. \<^verbatim>\<open>Validate\<close> never compares the name with the
  containers of the pod: for the pod with the single container \<^verbatim>\<open>nginx\<close> and the name
  \<^verbatim>\<open>sidecar\<close> it returns no error and keeps the name, and the command goes on to
  execute the probe and the capture.
\<close>

theorem Validate_accepts_unknown_container_counterexample:
  "''sidecar'' \<notin> set (map Name (Containers (Spec (runningPod [''nginx'']))))
   \<and> fst (Validate (fakeEnv allGood) (web1\<lparr>userSpecifiedContainer := ''sidecar''\<rparr>) emptyContainer) = None
   \<and> userSpecifiedContainer
         (fst (snd (Validate (fakeEnv allGood) (web1\<lparr>userSpecifiedContainer := ''sidecar''\<rparr>) emptyContainer)))
       = ''sidecar''
   \<and> execArgvs (trace (snd (snd (RunE (fakeEnv allGood)
         (flagDefaults\<lparr>userSpecifiedContainer := ''sidecar''\<rparr>) [''web-1''] emptyContainer))))
       = [[''/bin/sh'', ''-c'', ''ls -alt /tmp/static-tcpdump''],
          [''/tmp/static-tcpdump'', ''-U'', ''-w'', ''-'']]"
  by (simp add: RunE_def Complete_def Validate_def PodSucceeded_def PodFailed_def
      sniff_defs fixture_defs)

text \<open>
  C6, as the code has it. With a current context and a namespace given, \<^verbatim>\<open>Validate\<close>
  returns the error of the lookup when the pod cannot be fetched, the completed-pod error
  when its phase is \<^verbatim>\<open>Succeeded\<close> or \<^verbatim>\<open>Failed\<close>, and the no-containers error when
  it has none: three different errors. Otherwise it succeeds, with the first container of
  the pod when no container was named and with the name as given when one was. It opens
  no remote command channel, and when it fails after \<^verbatim>\<open>Complete\<close> the command returns
  its error without any channel having been opened.
\<close>

theorem Validate_fail_fast:
  assumes "CurrentContext (rawConfig opts) \<noteq> []"
    and "userSpecifiedNamespace opts \<noteq> []"
    and "fst (GetPod env (clientset opts) (userSpecifiedNamespace opts) (userSpecifiedPod opts) (world s))
           = lookup"
  shows "(\<forall>e. lookup = Inl e \<longrightarrow> fst (Validate env opts s) = Some (External e))
       \<and> (\<forall>pod. lookup = Inr pod \<and> (Phase (Status pod) = PodSucceeded \<or> Phase (Status pod) = PodFailed) \<longrightarrow>
            fst (Validate env opts s) = Some (CompletedPod (Phase (Status pod))))
       \<and> (\<forall>pod. lookup = Inr pod \<and> Phase (Status pod) \<noteq> PodSucceeded \<and> Phase (Status pod) \<noteq> PodFailed \<and>
              Containers (Spec pod) = [] \<longrightarrow>
            fst (Validate env opts s) = Some NoContainers)
       \<and> (\<forall>pod. lookup = Inr pod \<and> Phase (Status pod) \<noteq> PodSucceeded \<and> Phase (Status pod) \<noteq> PodFailed \<and>
              Containers (Spec pod) \<noteq> [] \<longrightarrow>
            fst (Validate env opts s) = None \<and>
            userSpecifiedContainer (fst (snd (Validate env opts s))) =
              (if userSpecifiedContainer opts = [] then Name (hd (Containers (Spec pod)))
               else userSpecifiedContainer opts))
       \<and> channels (trace (snd (snd (Validate env opts s)))) = channels (trace s)
       \<and> (\<forall>e. Complete env optsInit args sInit = (None, opts, s) \<and> fst (Validate env opts s) = Some e \<longrightarrow>
            fst (RunE env optsInit args sInit) = Some e \<and>
            channels (trace (snd (snd (RunE env optsInit args sInit)))) = channels (trace sInit))"
proof (intro conjI allI impI)
  fix e assume "lookup = Inl e"
  with assms show "fst (Validate env opts s) = Some (External e)"
    by (auto simp add: Validate_def pods_Get_def split: prod.splits)
next
  fix pod
  assume "lookup = Inr pod \<and> (Phase (Status pod) = PodSucceeded \<or> Phase (Status pod) = PodFailed)"
  with assms show "fst (Validate env opts s) = Some (CompletedPod (Phase (Status pod)))"
    by (auto simp add: Validate_def pods_Get_def split: prod.splits)
next
  fix pod
  assume "lookup = Inr pod \<and> Phase (Status pod) \<noteq> PodSucceeded \<and> Phase (Status pod) \<noteq> PodFailed \<and>
          Containers (Spec pod) = []"
  with assms show "fst (Validate env opts s) = Some NoContainers"
    by (auto simp add: Validate_def pods_Get_def split: prod.splits)
next
  fix pod
  assume a: "lookup = Inr pod \<and> Phase (Status pod) \<noteq> PodSucceeded \<and> Phase (Status pod) \<noteq> PodFailed \<and>
          Containers (Spec pod) \<noteq> []"
  then have "0 < length (Containers (Spec pod))" by simp
  with a assms show "fst (Validate env opts s) = None"
    by (auto simp add: Validate_def pods_Get_def split: prod.splits)
  from a have "Containers (Spec pod) ! 0 = hd (Containers (Spec pod))"
    by (simp add: hd_conv_nth)
  with a assms show "userSpecifiedContainer (fst (snd (Validate env opts s))) =
      (if userSpecifiedContainer opts = [] then Name (hd (Containers (Spec pod)))
       else userSpecifiedContainer opts)"
    by (auto simp add: Validate_def pods_Get_def split: prod.splits)
next
  show "channels (trace (snd (snd (Validate env opts s)))) = channels (trace s)"
    by (rule Validate_channels)
next
  fix e
  assume a: "Complete env optsInit args sInit = (None, opts, s) \<and> fst (Validate env opts s) = Some e"
  then obtain o2 s2 where v: "Validate env opts s = (Some e, o2, s2)"
    by (metis prod.collapse)
  with a show "fst (RunE env optsInit args sInit) = Some e"
    by (simp add: RunE_def)
  have "trace s = trace sInit"
    using Complete_trace [of env optsInit args sInit] a by simp
  moreover have "channels (trace s2) = channels (trace s)"
    using Validate_channels [of env opts s] v by simp
  ultimately show "channels (trace (snd (snd (RunE env optsInit args sInit)))) = channels (trace sInit)"
    using a v by (simp add: RunE_def)
qed

theorem Validate_fail_fast_witness:
  "fst (Validate (fakeEnv podNotFound) web1 emptyContainer) = Some (External ''pods web-1 not found'')
   \<and> fst (Validate (fakeEnv podSucceeded) web1 emptyContainer) = Some (CompletedPod ''Succeeded'')
   \<and> fst (Validate (fakeEnv podWithoutContainers) web1 emptyContainer) = Some NoContainers
   \<and> fst (Validate (fakeEnv allGood) (web1\<lparr>userSpecifiedContainer := []\<rparr>) emptyContainer) = None
   \<and> userSpecifiedContainer
         (fst (snd (Validate (fakeEnv allGood) (web1\<lparr>userSpecifiedContainer := []\<rparr>) emptyContainer)))
       = ''nginx''
   \<and> fst (RunE (fakeEnv podNotFound) flagDefaults [''web-1''] emptyContainer)
       = Some (External ''pods web-1 not found'')
   \<and> channels (trace (snd (snd (RunE (fakeEnv podNotFound) flagDefaults [''web-1''] emptyContainer))))
       = []"
proof -
  have ctx: "CurrentContext (rawConfig web1) \<noteq> []" "userSpecifiedNamespace web1 \<noteq> []"
    by (simp_all add: fixture_defs)
  have ctx': "CurrentContext (rawConfig (web1\<lparr>userSpecifiedContainer := []\<rparr>)) \<noteq> []"
    "userSpecifiedNamespace (web1\<lparr>userSpecifiedContainer := []\<rparr>) \<noteq> []"
    by (simp_all add: fixture_defs)
  have ctx'': "CurrentContext (rawConfig web1Completed) \<noteq> []" "userSpecifiedNamespace web1Completed \<noteq> []"
    by (simp_all add: web1Completed_def fixture_defs)
  have i1: "fst (Validate (fakeEnv podNotFound) web1 emptyContainer) = Some (External ''pods web-1 not found'')"
    using Validate_fail_fast [OF ctx refl, where env = "fakeEnv podNotFound" and s = emptyContainer]
    by (simp add: fakeEnv_def podNotFound_def)
  have i2: "fst (Validate (fakeEnv podSucceeded) web1 emptyContainer) = Some (CompletedPod ''Succeeded'')"
    using Validate_fail_fast [OF ctx refl, where env = "fakeEnv podSucceeded" and s = emptyContainer]
    by (simp add: fakeEnv_def podSucceeded_def PodSucceeded_def)
  have i3: "fst (Validate (fakeEnv podWithoutContainers) web1 emptyContainer) = Some NoContainers"
    using Validate_fail_fast [OF ctx refl, where env = "fakeEnv podWithoutContainers" and s = emptyContainer]
    by (simp add: fakeEnv_def podWithoutContainers_def runningPod_def PodSucceeded_def PodFailed_def)
  have i4: "fst (Validate (fakeEnv allGood) (web1\<lparr>userSpecifiedContainer := []\<rparr>) emptyContainer) = None
      \<and> userSpecifiedContainer
         (fst (snd (Validate (fakeEnv allGood) (web1\<lparr>userSpecifiedContainer := []\<rparr>) emptyContainer)))
       = ''nginx''"
    using Validate_fail_fast [OF ctx' refl, where env = "fakeEnv allGood" and s = emptyContainer]
    by (simp add: fakeEnv_def allGood_def runningPod_def PodSucceeded_def PodFailed_def)
  have v: "fst (Validate (fakeEnv podNotFound) web1Completed emptyContainer)
             = Some (External ''pods web-1 not found'')"
    using Validate_fail_fast [OF ctx'' refl, where env = "fakeEnv podNotFound" and s = emptyContainer]
    by (simp add: fakeEnv_def podNotFound_def)
  have i5: "fst (RunE (fakeEnv podNotFound) flagDefaults [''web-1''] emptyContainer)
       = Some (External ''pods web-1 not found'')
   \<and> channels (trace (snd (snd (RunE (fakeEnv podNotFound) flagDefaults [''web-1''] emptyContainer))))
       = []"
    using Validate_fail_fast [OF ctx'' refl, where env = "fakeEnv podNotFound" and s = emptyContainer
        and optsInit = flagDefaults and args = "[''web-1'']" and sInit = emptyContainer]
      v Complete_web1 [of podNotFound]
    by (simp add: emptyContainer_def)
  from i1 i2 i3 i4 i5 show ?thesis by simp
qed

end
